theory Spec2Isabelle
  imports Main "HOL-Library.Word"
begin

unbundle bit_operations_syntax

section \<open>Data model (Scheduler.h)\<close>

text \<open>
  Objects live in a store indexed by addresses; address 0 is the null pointer.
  The three classes of the repository share the fields of \<open>SchedulerChore\<close>; the
  dynamic class of an object selects its \<open>Run()\<close>. \<open>m_baseTime\<close> exists in
  \<open>Scheduler\<close> objects only and \<open>m_state\<close> in \<open>LEDflasher\<close> objects only.
\<close>

type_synonym addr = nat
type_synonym u32 = "32 word"

datatype dyn_class = Scheduler_class | TimerWrap_class | LEDflasher_class

record chore =
  m_parent :: addr
  m_targetTime :: u32
  m_interval :: u32
  m_next :: addr
  m_prev :: addr
  dyn :: dyn_class
  m_baseTime :: u32
  m_state :: bool

text \<open>
  The program state: the store, the external millisecond clock (the value the
  \<open>k\<close>-th call of \<open>millis()\<close> returns, and how many calls were made), and a
  trace of the \<open>Run()\<close> invocations made by \<open>RunScheduler\<close>.
\<close>

record state =
  heap :: "addr \<Rightarrow> chore option"
  clock :: "nat \<Rightarrow> u32"
  reads :: nat
  ran :: "addr list"

text \<open>
  Dereferencing the null pointer or an address that holds no object is undefined
  behaviour in C++; the model stops there with a fault and the state reached.
  A loop that does not terminate has no outcome (\<open>None\<close>).
\<close>

datatype fault = NullPointer | WildPointer

datatype 'a outcome = Done 'a state | Fault fault state

type_synonym 'a prog = "state \<Rightarrow> 'a outcome option"

definition deref :: "state \<Rightarrow> addr \<Rightarrow> chore option" where
  "deref s p = (if p = 0 then None else heap s p)"

definition fault_at :: "addr \<Rightarrow> fault" where
  "fault_at p = (if p = 0 then NullPointer else WildPointer)"

definition ret :: "'a \<Rightarrow> 'a prog" where
  "ret x s = Some (Done x s)"

definition and_then :: "'a prog \<Rightarrow> ('a \<Rightarrow> 'b prog) \<Rightarrow> 'b prog" where
  "and_then m k s =
     (case m s of
        None \<Rightarrow> None
      | Some (Fault e s') \<Rightarrow> Some (Fault e s')
      | Some (Done x s') \<Rightarrow> k x s')"

text \<open>Reading the field \<open>f\<close> of \<open>*p\<close>, and updating \<open>*p\<close> by \<open>f\<close>.\<close>

definition rd :: "addr \<Rightarrow> (chore \<Rightarrow> 'a) \<Rightarrow> 'a prog" where
  "rd p f s =
     (case deref s p of
        None \<Rightarrow> Some (Fault (fault_at p) s)
      | Some c \<Rightarrow> Some (Done (f c) s))"

definition wr :: "addr \<Rightarrow> (chore \<Rightarrow> chore) \<Rightarrow> unit prog" where
  "wr p f s =
     (case deref s p of
        None \<Rightarrow> Some (Fault (fault_at p) s)
      | Some c \<Rightarrow> Some (Done () (s\<lparr>heap := (heap s)(p \<mapsto> f c)\<rparr>)))"

definition millis :: "u32 prog" where
  "millis s = Some (Done (clock s (reads s)) (s\<lparr>reads := Suc (reads s)\<rparr>))"

definition state_of :: "'a outcome \<Rightarrow> state" where
  "state_of r = (case r of Done x s \<Rightarrow> s | Fault e s \<Rightarrow> s)"

section \<open>SchedulerChore\<close>

text \<open>The constructors \<open>SchedulerChore()\<close> and \<open>SchedulerChore(uint32_t inter)\<close>.\<close>

definition SchedulerChore_default :: "dyn_class \<Rightarrow> chore" where
  "SchedulerChore_default d =
     \<lparr>m_parent = 0, m_targetTime = 0, m_interval = 0, m_next = 0, m_prev = 0,
      dyn = d, m_baseTime = 0, m_state = False\<rparr>"

definition SchedulerChore_inter :: "dyn_class \<Rightarrow> u32 \<Rightarrow> chore" where
  "SchedulerChore_inter d v =
     (let c = (SchedulerChore_default d)\<lparr>m_interval := v\<rparr>
      in c\<lparr>m_interval := m_interval c AND 0x0fffffff\<rparr>)"

text \<open>\<open>uint32_t Interval() const\<close> and \<open>void Interval(uint32_t inter)\<close>.\<close>

definition Interval :: "chore \<Rightarrow> u32" where
  "Interval c = m_interval c"

definition set_Interval :: "u32 \<Rightarrow> chore \<Rightarrow> chore" where
  "set_Interval v c = c\<lparr>m_interval := v AND 0x0fffffff\<rparr>"

text \<open>\<open>operator<\<close>: compares execution times.\<close>

definition less_chore :: "addr \<Rightarrow> addr \<Rightarrow> bool prog" where
  "less_chore a b =
     and_then (rd a m_targetTime) (\<lambda>ta.
     and_then (rd b m_targetTime) (\<lambda>tb.
     ret (ta < tb)))"

text \<open>\<open>this->InsertBefore(c)\<close>, statement by statement.\<close>

definition InsertBefore :: "addr \<Rightarrow> addr \<Rightarrow> unit prog" where
  "InsertBefore this c =
     and_then (wr c (\<lambda>x. x\<lparr>m_next := this\<rparr>)) (\<lambda>_.
     and_then (rd this m_prev) (\<lambda>p.
     and_then (wr c (\<lambda>x. x\<lparr>m_prev := p\<rparr>)) (\<lambda>_.
     and_then (rd this m_prev) (\<lambda>q.
     and_then (wr q (\<lambda>x. x\<lparr>m_next := c\<rparr>)) (\<lambda>_.
     wr this (\<lambda>x. x\<lparr>m_prev := c\<rparr>))))))"

text \<open>\<open>this->Remove()\<close>.\<close>

definition Remove :: "addr \<Rightarrow> unit prog" where
  "Remove this =
     and_then (rd this m_prev) (\<lambda>p.
     and_then (rd this m_next) (\<lambda>n.
     and_then (wr p (\<lambda>x. x\<lparr>m_next := n\<rparr>)) (\<lambda>_.
     and_then (rd this m_next) (\<lambda>n'.
     and_then (rd this m_prev) (\<lambda>p'.
     and_then (wr n' (\<lambda>x. x\<lparr>m_prev := p'\<rparr>)) (\<lambda>_.
     and_then (wr this (\<lambda>x. x\<lparr>m_next := 0\<rparr>)) (\<lambda>_.
     wr this (\<lambda>x. x\<lparr>m_prev := 0\<rparr>))))))))"

text \<open>The body of \<open>~SchedulerChore()\<close>.\<close>

definition SchedulerChore_dtor :: "addr \<Rightarrow> unit prog" where
  "SchedulerChore_dtor this = wr this (\<lambda>x. x\<lparr>m_parent := 0\<rparr>)"

text \<open>\<open>int SchedulerChore::AbortChore()\<close> is defined after \<open>Scheduler::AbortChore\<close> below.\<close>

section \<open>TimerWrap and LEDflasher\<close>

definition TimerWrap_ctor :: chore where
  "TimerWrap_ctor = (SchedulerChore_default TimerWrap_class)\<lparr>m_targetTime := 0x40000000\<rparr>"

text \<open>The loop of \<open>TimerWrap::Run\<close>: \<open>for (ptr = m_next; ptr != this; ptr = ptr->m_next)\<close>.\<close>

partial_function (option) TimerWrap_loop :: "addr \<Rightarrow> addr \<Rightarrow> state \<Rightarrow> unit outcome option" where
  "TimerWrap_loop this ptr s =
     (if ptr = this then Some (Done () s)
      else
        (case and_then (wr ptr (\<lambda>x. x\<lparr>m_targetTime := m_targetTime x AND 0x3fffffff\<rparr>)) (\<lambda>_.
              rd ptr m_next) s of
           None \<Rightarrow> None
         | Some (Fault e s') \<Rightarrow> Some (Fault e s')
         | Some (Done ptr' s') \<Rightarrow> TimerWrap_loop this ptr' s'))"

declare TimerWrap_loop.simps [code]

definition TimerWrap_Run :: "addr \<Rightarrow> unit prog" where
  "TimerWrap_Run this =
     and_then (wr this (\<lambda>x. x\<lparr>m_targetTime := m_targetTime x + 0x40000000\<rparr>)) (\<lambda>_.
     and_then (rd this m_next) (\<lambda>ptr.
     TimerWrap_loop this ptr))"

text \<open>
  \<open>LEDflasher(int pin)\<close> uses the default base constructor; its \<open>Run()\<close> toggles
  \<open>m_state\<close> (the pin output is outside the model).
\<close>

definition LEDflasher_ctor :: chore where
  "LEDflasher_ctor = SchedulerChore_default LEDflasher_class"

definition LEDflasher_Run :: "addr \<Rightarrow> unit prog" where
  "LEDflasher_Run this = wr this (\<lambda>x. x\<lparr>m_state := \<not> m_state x\<rparr>)"

text \<open>The virtual call \<open>chore->Run()\<close>; \<open>Scheduler::Run\<close> is empty.\<close>

definition Run :: "addr \<Rightarrow> unit prog" where
  "Run chore =
     and_then (rd chore dyn) (\<lambda>d.
       case d of
         Scheduler_class \<Rightarrow> ret ()
       | TimerWrap_class \<Rightarrow> TimerWrap_Run chore
       | LEDflasher_class \<Rightarrow> LEDflasher_Run chore)"

section \<open>Scheduler\<close>

definition GetCurrentTime :: "addr \<Rightarrow> u32 prog" where
  "GetCurrentTime this =
     and_then millis (\<lambda>m.
     and_then (rd this m_baseTime) (\<lambda>b.
     ret (m - b)))"

text \<open>
  The loop of \<open>Scheduler::Insert\<close>:
  \<open>for (ptr = m_next; ptr != this; ptr = ptr->m_next) if (*chore < *ptr) chore->InsertBefore(ptr);\<close>
  It returns the value of \<open>ptr\<close> at the exit.
\<close>

partial_function (option) Insert_loop :: "addr \<Rightarrow> addr \<Rightarrow> addr \<Rightarrow> state \<Rightarrow> addr outcome option" where
  "Insert_loop this chore ptr s =
     (if ptr = this then Some (Done ptr s)
      else
        (case and_then (less_chore chore ptr) (\<lambda>lt.
              and_then (if lt then InsertBefore chore ptr else ret ()) (\<lambda>_.
              rd ptr m_next)) s of
           None \<Rightarrow> None
         | Some (Fault e s') \<Rightarrow> Some (Fault e s')
         | Some (Done ptr' s') \<Rightarrow> Insert_loop this chore ptr' s'))"

declare Insert_loop.simps [code]

definition Insert :: "addr \<Rightarrow> addr \<Rightarrow> unit prog" where
  "Insert this chore =
     and_then (wr chore (\<lambda>x. x\<lparr>m_parent := this\<rparr>)) (\<lambda>_.
     and_then (rd this m_next) (\<lambda>first.
     and_then (Insert_loop this chore first) (\<lambda>ptr.
     if ptr = this then InsertBefore chore this else ret ())))"

definition Schedule :: "addr \<Rightarrow> addr \<Rightarrow> int prog" where
  "Schedule this chore =
     and_then (rd chore m_parent) (\<lambda>p.
     if p \<noteq> 0 then ret (- 1)
     else
       and_then (GetCurrentTime this) (\<lambda>now.
       and_then (rd chore m_interval) (\<lambda>i.
       and_then (wr chore (\<lambda>x. x\<lparr>m_targetTime := now + i\<rparr>)) (\<lambda>_.
       and_then (Insert this chore) (\<lambda>_.
       ret 0)))))"

definition Reschedule :: "addr \<Rightarrow> addr \<Rightarrow> int prog" where
  "Reschedule this chore =
     and_then (rd chore m_parent) (\<lambda>p.
     if p = 0 then ret (- 1)
     else
       and_then (wr chore (\<lambda>x. x\<lparr>m_targetTime := m_targetTime x + m_interval x\<rparr>)) (\<lambda>_.
       and_then (Insert this chore) (\<lambda>_.
       ret 0)))"

text \<open>\<open>Scheduler::AbortChore(chore)\<close>: the test reads the scheduler's own \<open>m_parent\<close>.\<close>

definition AbortChore :: "addr \<Rightarrow> addr \<Rightarrow> int prog" where
  "AbortChore this chore =
     and_then (rd this m_parent) (\<lambda>p.
     and_then (if p \<noteq> 0 then Remove chore else ret ()) (\<lambda>_.
     and_then (wr chore (\<lambda>x. x\<lparr>m_parent := 0\<rparr>)) (\<lambda>_.
     ret 0)))"

text \<open>\<open>int SchedulerChore::AbortChore()\<close>.\<close>

definition SchedulerChore_AbortChore :: "addr \<Rightarrow> int prog" where
  "SchedulerChore_AbortChore this =
     and_then (rd this m_parent) (\<lambda>p.
     if p \<noteq> 0 then AbortChore p this else ret (- 1))"

text \<open>
  \<open>Scheduler::RunScheduler\<close>. \<open>head_delta\<close> is the first statement of the loop body
  (the signed difference), \<open>dispatch_head\<close> the branch taken when \<open>delta <= 1\<close>;
  the invocation of \<open>Run()\<close> is recorded in the trace.
\<close>

definition head_delta :: "addr \<Rightarrow> int prog" where
  "head_delta this =
     and_then (rd this m_next) (\<lambda>h.
     and_then (rd h m_targetTime) (\<lambda>t.
     and_then (GetCurrentTime this) (\<lambda>now.
     ret (sint (t - now)))))"

definition note_run :: "addr \<Rightarrow> unit prog" where
  "note_run chore s = Some (Done () (s\<lparr>ran := ran s @ [chore]\<rparr>))"

definition dispatch_head :: "addr \<Rightarrow> unit prog" where
  "dispatch_head this =
     and_then (rd this m_next) (\<lambda>chore.
     and_then (Remove chore) (\<lambda>_.
     and_then (rd chore m_parent) (\<lambda>p.
     if p \<noteq> 0 then
       and_then (note_run chore) (\<lambda>_.
       and_then (Run chore) (\<lambda>_.
       and_then (Reschedule this chore) (\<lambda>_.
       ret ())))
     else ret ())))"

partial_function (option) RunScheduler :: "addr \<Rightarrow> state \<Rightarrow> unit outcome option" where
  "RunScheduler this s =
     (case head_delta this s of
        None \<Rightarrow> None
      | Some (Fault e s') \<Rightarrow> Some (Fault e s')
      | Some (Done delta s1) \<Rightarrow>
          if delta \<le> 1 then
            (case dispatch_head this s1 of
               None \<Rightarrow> None
             | Some (Fault e s') \<Rightarrow> Some (Fault e s')
             | Some (Done u s2) \<Rightarrow> RunScheduler this s2)
          else Some (Done () s1))"

declare RunScheduler.simps [code]

text \<open>
  \<open>Scheduler::Scheduler()\<close>: the base object and the member \<open>m_timerWrap\<close> (at
  address \<open>tw\<close>) are constructed first, then the body runs.
\<close>

definition construct :: "addr \<Rightarrow> chore \<Rightarrow> unit prog" where
  "construct p c s = Some (Done () (s\<lparr>heap := (heap s)(p \<mapsto> c)\<rparr>))"

definition Scheduler_ctor :: "addr \<Rightarrow> addr \<Rightarrow> unit prog" where
  "Scheduler_ctor this tw =
     and_then (construct this (SchedulerChore_default Scheduler_class)) (\<lambda>_.
     and_then (construct tw TimerWrap_ctor) (\<lambda>_.
     and_then (wr this (\<lambda>x. x\<lparr>m_next := this\<rparr>)) (\<lambda>_.
     and_then (wr this (\<lambda>x. x\<lparr>m_prev := this\<rparr>)) (\<lambda>_.
     and_then millis (\<lambda>m.
     and_then (wr this (\<lambda>x. x\<lparr>m_baseTime := m\<rparr>)) (\<lambda>_.
     and_then (Schedule this tw) (\<lambda>_.
     ret ())))))))"

section \<open>The queue as a list, observations, example states\<close>

text \<open>
  \<open>path s p as q\<close>: following \<open>m_next\<close> from \<open>p\<close> visits exactly the live objects
  \<open>as\<close> and then arrives at \<open>q\<close>. \<open>queue s this xs\<close>: the walk
  \<open>for (ptr = this->m_next; ptr != this; ptr = ptr->m_next)\<close> visits exactly \<open>xs\<close>,
  without repetition, and comes back to the sentinel \<open>this\<close>.
\<close>

primrec path :: "state \<Rightarrow> addr \<Rightarrow> addr list \<Rightarrow> addr \<Rightarrow> bool" where
  "path s p [] q \<longleftrightarrow> p = q"
| "path s p (a # as) q \<longleftrightarrow>
     p = a \<and> (case deref s a of None \<Rightarrow> False | Some c \<Rightarrow> path s (m_next c) as q)"

definition queue :: "state \<Rightarrow> addr \<Rightarrow> addr list \<Rightarrow> bool" where
  "queue s this xs \<longleftrightarrow>
     (case deref s this of None \<Rightarrow> False | Some S \<Rightarrow> path s (m_next S) xs this)
     \<and> this \<notin> set xs \<and> distinct xs"

text \<open>What a call left behind: its fault, its return value, an object, the trace, the queue.\<close>

definition fault_of :: "'a outcome option \<Rightarrow> fault option" where
  "fault_of r = (case r of Some (Fault e s) \<Rightarrow> Some e | _ \<Rightarrow> None)"

definition result_of :: "'a outcome option \<Rightarrow> 'a option" where
  "result_of r = (case r of Some (Done x s) \<Rightarrow> Some x | _ \<Rightarrow> None)"

definition object_after :: "'a outcome option \<Rightarrow> addr \<Rightarrow> chore option" where
  "object_after r p = (case r of Some x \<Rightarrow> deref (state_of x) p | None \<Rightarrow> None)"

definition ran_after :: "'a outcome option \<Rightarrow> addr list" where
  "ran_after r = (case r of Some x \<Rightarrow> ran (state_of x) | None \<Rightarrow> [])"

definition queue_after :: "'a outcome option \<Rightarrow> addr \<Rightarrow> addr list \<Rightarrow> bool" where
  "queue_after r this xs = (case r of Some x \<Rightarrow> queue (state_of x) this xs | None \<Rightarrow> False)"

text \<open>
  Example objects and states. The scheduler is at address 1, its member
  \<open>m_timerWrap\<close> at address 2, \<open>LEDflasher\<close> chores at 3 and 4. The clock returns
  \<open>t\<close> at every call.
\<close>

definition sentinel :: "addr \<Rightarrow> addr \<Rightarrow> chore" where
  "sentinel n p = (SchedulerChore_default Scheduler_class)\<lparr>m_next := n, m_prev := p\<rparr>"

definition flasher :: "u32 \<Rightarrow> chore" where
  "flasher i = set_Interval i LEDflasher_ctor"

definition queued :: "chore \<Rightarrow> addr \<Rightarrow> u32 \<Rightarrow> addr \<Rightarrow> addr \<Rightarrow> chore" where
  "queued c owner due n p = c\<lparr>m_parent := owner, m_targetTime := due, m_next := n, m_prev := p\<rparr>"

definition blank :: "u32 \<Rightarrow> state" where
  "blank t = \<lparr>heap = (\<lambda>_. None), clock = (\<lambda>_. t), reads = 0, ran = []\<rparr>"

text \<open>
  The scheduler as lines 35 to 38 of its constructor leave it (empty queue, the
  sentinel linked to itself), and a chore constructed with interval 100 that was
  never scheduled.
\<close>

definition fresh_sched :: "u32 \<Rightarrow> state" where
  "fresh_sched t = (blank t)\<lparr>heap := (\<lambda>_. None)(1 \<mapsto> sentinel 1 1, 3 \<mapsto> flasher 100)\<rparr>"


text \<open>
  A well-formed queue holding the one chore 3 (interval 100, due at 100, as a
  registration at time 0 is meant to leave it), and a detached chore 4.
\<close>

definition one_task :: "u32 \<Rightarrow> state" where
  "one_task t = (blank t)\<lparr>heap := (\<lambda>_. None)(1 \<mapsto> sentinel 3 3,
      3 \<mapsto> queued (flasher 100) 1 100 1 1, 4 \<mapsto> flasher 50)\<rparr>"

text \<open>
  A well-formed queue holding the wrap guard (due at \<open>0x40000000\<close>) and then
  chore 3 (due at \<open>0x40000064\<close>).
\<close>

definition guard_and_task :: "u32 \<Rightarrow> state" where
  "guard_and_task t = (blank t)\<lparr>heap := (\<lambda>_. None)(1 \<mapsto> sentinel 2 3,
      2 \<mapsto> queued TimerWrap_ctor 1 0x40000000 3 1,
      3 \<mapsto> queued (flasher 100) 1 0x40000064 1 2)\<rparr>"

section \<open>Store and queue lemmas\<close>

lemma deref_reads [simp]: "deref (s\<lparr>reads := n\<rparr>) p = deref s p"
  by (simp add: deref_def)

lemma deref_ran [simp]: "deref (s\<lparr>ran := l\<rparr>) p = deref s p"
  by (simp add: deref_def)

lemma deref_heap [simp]: "deref (s\<lparr>heap := H\<rparr>) q = (if q = 0 then None else H q)"
  by (simp add: deref_def)

text \<open>A path depends only on the \<open>m_next\<close> fields of the objects on it.\<close>

lemma path_cong_next:
  "(\<And>a. a \<in> set as \<Longrightarrow> map_option m_next (deref s' a) = map_option m_next (deref s a))
   \<Longrightarrow> path s' p as q = path s p as q"
proof (induction as arbitrary: p)
  case Nil
  then show ?case by simp
next
  case (Cons a as)
  have eq: "map_option m_next (deref s' a) = map_option m_next (deref s a)"
    using Cons.prems by simp
  have ih: "\<And>p. path s' p as q = path s p as q"
    using Cons.IH Cons.prems by simp
  show ?case
  proof (cases "deref s a")
    case None
    then show ?thesis using eq by simp
  next
    case (Some c)
    then obtain c' where c': "deref s' a = Some c'" "m_next c' = m_next c"
      using eq by (cases "deref s' a") auto
    then show ?thesis using Some ih by simp
  qed
qed

lemma path_reads [simp]: "path (s\<lparr>reads := n\<rparr>) p as q = path s p as q"
  by (rule path_cong_next) simp

lemma path_heap:
  "(\<And>a. a \<in> set as \<Longrightarrow> H a = heap s a)
   \<Longrightarrow> path (s\<lparr>heap := H\<rparr>) p as q = path s p as q"
  by (rule path_cong_next) (simp add: deref_def)

section \<open>Inserting a detached chore\<close>

text \<open>
  A chore whose \<open>m_prev\<close> is null (as both constructors and \<open>Remove\<close> leave it):
  \<open>chore->InsertBefore(a)\<close> writes two fields of \<open>a\<close> and then dereferences
  \<open>chore->m_prev\<close>.
\<close>

lemma InsertBefore_detached:
  assumes "deref s h = Some ch" "m_prev ch = 0" "deref s a = Some ca" "a \<noteq> h"
  shows "\<exists>s'. InsertBefore h a s = Some (Fault NullPointer s') \<and> ran s' = ran s
              \<and> reads s' = reads s \<and> deref s' h = Some ch"
  using assms
  by (simp add: InsertBefore_def and_then_def rd_def wr_def deref_def fault_at_def split: if_splits)

lemma Insert_loop_detached:
  assumes "deref s h = Some ch" "m_prev ch = 0" "path s ptr ys this" "h \<notin> set ys" "this \<notin> set ys"
  shows "Insert_loop this h ptr s = Some (Done this s)
       \<or> (\<exists>s'. Insert_loop this h ptr s = Some (Fault NullPointer s') \<and> ran s' = ran s
              \<and> reads s' = reads s \<and> deref s' h = Some ch)"
  using assms(3-5)
proof (induction ys arbitrary: ptr)
  case Nil
  then show ?case by (subst Insert_loop.simps) simp
next
  case (Cons a ys)
  then obtain ca where a: "ptr = a" "deref s a = Some ca" "path s (m_next ca) ys this"
    by (auto split: option.splits)
  have ne: "a \<noteq> this" "a \<noteq> h" using Cons.prems by auto
  show ?case
  proof (cases "m_targetTime ch < m_targetTime ca")
    case True
    obtain s' where s': "InsertBefore h a s = Some (Fault NullPointer s')" "ran s' = ran s"
        "reads s' = reads s" "deref s' h = Some ch"
      using InsertBefore_detached[OF assms(1,2) a(2) ne(2)] by blast
    have "Insert_loop this h ptr s = Some (Fault NullPointer s')"
      using True a ne s' assms(1)
      by (subst Insert_loop.simps) (simp add: and_then_def less_chore_def rd_def ret_def)
    then show ?thesis using s' by blast
  next
    case False
    have "Insert_loop this h ptr s = Insert_loop this h (m_next ca) s"
      using False a ne assms(1)
      by (subst Insert_loop.simps) (simp add: and_then_def less_chore_def rd_def ret_def)
    moreover have "h \<notin> set ys" "this \<notin> set ys" using Cons.prems by auto
    ultimately show ?thesis using Cons.IH[OF a(3)] by simp
  qed
qed

lemma Insert_detached:
  assumes "deref s h = Some ch" "m_prev ch = 0" "queue s this ys" "h \<notin> set ys" "h \<noteq> this"
  shows "\<exists>s'. Insert this h s = Some (Fault NullPointer s') \<and> ran s' = ran s
              \<and> reads s' = reads s \<and> deref s' h = Some (ch\<lparr>m_parent := this\<rparr>)"
proof -
  obtain S where S: "deref s this = Some S" "path s (m_next S) ys this" "this \<notin> set ys"
    using assms(3) by (auto simp: queue_def split: option.splits)
  define s1 where "s1 = s\<lparr>heap := (heap s)(h \<mapsto> ch\<lparr>m_parent := this\<rparr>)\<rparr>"
  have h0: "h \<noteq> 0" using assms(1) by (auto simp: deref_def split: if_splits)
  have w: "wr h (\<lambda>x. x\<lparr>m_parent := this\<rparr>) s = Some (Done () s1)"
    using assms(1) by (simp add: wr_def s1_def)
  have d1: "deref s1 h = Some (ch\<lparr>m_parent := this\<rparr>)" "deref s1 this = Some S"
    using h0 S(1) assms(5) by (auto simp: s1_def deref_def split: if_splits)
  have p1: "path s1 (m_next S) ys this"
    using S(2) assms(4) unfolding s1_def by (subst path_heap) auto
  have prev1: "m_prev (ch\<lparr>m_parent := this\<rparr>) = 0" using assms(2) by simp
  have st: "Insert this h s = and_then (Insert_loop this h (m_next S))
       (\<lambda>ptr. if ptr = this then InsertBefore h this else ret ()) s1"
    using w d1 by (simp add: Insert_def and_then_def rd_def)
  from Insert_loop_detached[OF d1(1) prev1 p1 assms(4) S(3)]
  show ?thesis
  proof
    assume l: "Insert_loop this h (m_next S) s1 = Some (Done this s1)"
    obtain s' where s': "InsertBefore h this s1 = Some (Fault NullPointer s')" "ran s' = ran s1"
        "reads s' = reads s1" "deref s' h = Some (ch\<lparr>m_parent := this\<rparr>)"
      using InsertBefore_detached[OF d1(1) prev1 d1(2)] assms(5) by blast
    have "Insert this h s = Some (Fault NullPointer s')"
      using st l s' by (simp add: and_then_def)
    then show ?thesis using s' by (auto simp: s1_def)
  next
    assume "\<exists>s'. Insert_loop this h (m_next S) s1 = Some (Fault NullPointer s') \<and> ran s' = ran s1
              \<and> reads s' = reads s1 \<and> deref s' h = Some (ch\<lparr>m_parent := this\<rparr>)"
    then obtain s' where s': "Insert_loop this h (m_next S) s1 = Some (Fault NullPointer s')"
       "ran s' = ran s1" "reads s' = reads s1" "deref s' h = Some (ch\<lparr>m_parent := this\<rparr>)" by blast
    have "Insert this h s = Some (Fault NullPointer s')"
      using st s' by (simp add: and_then_def)
    then show ?thesis using s' by (auto simp: s1_def)
  qed
qed

section \<open>Removing the head of the queue\<close>

lemma Remove_head:
  assumes S: "deref s this = Some S" "m_next S = h"
    and c: "deref s h = Some c" "m_prev c = this"
    and q: "queue s this (h # rest)"
  shows "\<exists>s' S'. Remove h s = Some (Done () s') \<and> ran s' = ran s \<and> reads s' = reads s
            \<and> clock s' = clock s
            \<and> deref s' h = Some (c\<lparr>m_next := 0, m_prev := 0\<rparr>)
            \<and> deref s' this = Some S' \<and> m_baseTime S' = m_baseTime S
            \<and> queue s' this rest"
proof -
  have ne: "h \<noteq> this" "h \<notin> set rest" "this \<notin> set rest" "distinct rest"
    using q by (auto simp: queue_def)
  have p: "path s (m_next c) rest this"
    using q S c by (auto simp: queue_def)
  have nz: "h \<noteq> 0" "this \<noteq> 0"
    using S c by (auto simp: deref_def split: if_splits)
  show ?thesis
  proof (cases rest)
    case Nil
    then have n: "m_next c = this" using p by simp
    show ?thesis
      using S c n ne nz Nil
      by (simp add: Remove_def and_then_def rd_def wr_def deref_def queue_def)
  next
    case (Cons a rest')
    then obtain ca where a: "m_next c = a" "deref s a = Some ca" "path s (m_next ca) rest' this"
      using p by (auto split: option.splits)
    have na: "a \<noteq> h" "a \<noteq> this" "a \<noteq> 0" "a \<notin> set rest'"
      using ne Cons a(2) by (auto simp: deref_def split: if_splits)
    define s' where "s' = s\<lparr>heap := (heap s)(this \<mapsto> S\<lparr>m_next := a\<rparr>, a \<mapsto> ca\<lparr>m_prev := this\<rparr>,
          h \<mapsto> c\<lparr>m_next := 0, m_prev := 0\<rparr>)\<rparr>"
    have r: "Remove h s = Some (Done () s')"
      using S c a na ne nz
      by (simp add: Remove_def and_then_def rd_def wr_def deref_def s'_def fun_upd_twist)
    have d: "deref s' h = Some (c\<lparr>m_next := 0, m_prev := 0\<rparr>)"
        "deref s' this = Some (S\<lparr>m_next := a\<rparr>)" "deref s' a = Some (ca\<lparr>m_prev := this\<rparr>)"
      using na ne nz by (auto simp: s'_def deref_def)
    have "path s' (m_next ca) rest' this = path s (m_next ca) rest' this"
      using na ne Cons unfolding s'_def by (intro path_heap) auto
    then have "queue s' this rest"
      using d a ne Cons by (simp add: queue_def)
    then show ?thesis using r d by (simp add: s'_def)
  qed
qed

section \<open>One call of RunScheduler on a well-formed queue\<close>

lemma head_delta_value:
  assumes "deref s this = Some S" "m_next S = h" "deref s h = Some c"
  shows "head_delta this s
       = Some (Done (sint (m_targetTime c - (clock s (reads s) - m_baseTime S)))
                (s\<lparr>reads := Suc (reads s)\<rparr>))"
  using assms
  by (simp add: head_delta_def GetCurrentTime_def millis_def and_then_def rd_def ret_def)

lemma RunScheduler_idle_head:
  assumes "deref s this = Some S" "m_next S = h" "deref s h = Some c"
    and "\<not> sint (m_targetTime c - (clock s (reads s) - m_baseTime S)) \<le> 1"
  shows "RunScheduler this s = Some (Done () (s\<lparr>reads := Suc (reads s)\<rparr>))"
  using assms(4) head_delta_value[OF assms(1-3)]
  by (subst RunScheduler.simps) simp

lemma RunScheduler_due_head:
  assumes S: "deref s this = Some S" "m_next S = h"
    and c: "deref s h = Some c" "m_prev c = this" "dyn c = LEDflasher_class" "m_parent c \<noteq> 0"
    and q: "queue s this (h # rest)"
    and due: "sint (m_targetTime c - (clock s (reads s) - m_baseTime S)) \<le> 1"
  shows "\<exists>s'. RunScheduler this s = Some (Fault NullPointer s') \<and> ran s' = ran s @ [h]
      \<and> deref s' h = Some (c\<lparr>m_next := 0, m_prev := 0, m_state := \<not> m_state c,
           m_targetTime := m_targetTime c + m_interval c, m_parent := this\<rparr>)"
proof -
  define s1 where "s1 = s\<lparr>reads := Suc (reads s)\<rparr>"
  have hd: "head_delta this s
       = Some (Done (sint (m_targetTime c - (clock s (reads s) - m_baseTime S))) s1)"
    using head_delta_value[OF S c(1)] by (simp add: s1_def)
  have S1: "deref s1 this = Some S" and c1: "deref s1 h = Some c" and q1: "queue s1 this (h # rest)"
    using S c q by (auto simp: s1_def queue_def)
  obtain s2 S' where s2: "Remove h s1 = Some (Done () s2)" "ran s2 = ran s1" "reads s2 = reads s1"
      "deref s2 h = Some (c\<lparr>m_next := 0, m_prev := 0\<rparr>)"
      "deref s2 this = Some S'" "queue s2 this rest"
    using Remove_head[OF S1 S(2) c1 c(2) q1] by blast
  have ne: "h \<noteq> this" "h \<notin> set rest" "h \<noteq> 0"
    using q c(1) by (auto simp: queue_def deref_def split: if_splits)
  define c3 where "c3 = c\<lparr>m_next := 0, m_prev := 0, m_state := \<not> m_state c,
       m_targetTime := m_targetTime c + m_interval c\<rparr>"
  define s3 where "s3 = s2\<lparr>ran := ran s2 @ [h], heap := (heap s2)(h \<mapsto> c3)\<rparr>"
  have d3: "deref s3 h = Some c3" "m_prev c3 = 0"
    using ne by (auto simp: s3_def c3_def)
  have p3: "path s3 p rest this = path s2 p rest this" for p
    using ne unfolding s3_def by (intro path_cong_next) (auto simp: deref_def)
  have t3: "deref s3 this = Some S'"
    using s2(5) ne by (auto simp: s3_def deref_def split: if_splits)
  have q3: "queue s3 this rest"
    using s2(6) s2(5) by (simp add: queue_def t3 p3)
  obtain s4 where s4: "Insert this h s3 = Some (Fault NullPointer s4)" "ran s4 = ran s3"
      "deref s4 h = Some (c3\<lparr>m_parent := this\<rparr>)"
    using Insert_detached[OF d3 q3 ne(2,1)] by blast
  have dh: "dispatch_head this s1 = Some (Fault NullPointer s4)"
    using S1 S(2) s2 c ne s4(1)
    by (simp add: dispatch_head_def and_then_def rd_def note_run_def Run_def LEDflasher_Run_def
          Reschedule_def wr_def ret_def s3_def c3_def)
  have "RunScheduler this s = Some (Fault NullPointer s4)"
    using hd dh due by (subst RunScheduler.simps) simp
  then show ?thesis
    using s4 s2 by (simp add: s3_def s1_def c3_def)
qed

section \<open>Abort on a scheduler that has no owner\<close>

text \<open>
  A scheduler that is not itself queued in another scheduler has a null
  \<open>m_parent\<close>; its \<open>AbortChore\<close> then writes the chore's \<open>m_parent\<close> and nothing
  else, whatever the chore's owner and links are.
\<close>

lemma AbortChore_keeps_links:
  assumes "deref s this = Some S" "m_parent S = 0" "deref s chore = Some c"
  shows "AbortChore this chore s
       = Some (Done 0 (s\<lparr>heap := (heap s)(chore \<mapsto> c\<lparr>m_parent := 0\<rparr>)\<rparr>))"
  using assms by (simp add: AbortChore_def and_then_def rd_def wr_def ret_def)

section \<open>Properties\<close>

subsection \<open>Interval truncation\<close>

text \<open>
  Claim C9. For every unsigned 32-bit value \<open>v\<close>, the interval read back after
  \<open>Interval(v)\<close> is \<open>v & (2^28 - 1)\<close>, that is \<open>v\<close> modulo \<open>2^28\<close>: larger values
  are truncated to their low 28 bits, neither rejected nor saturated. The
  constructor taking an interval applies the same mask.
\<close>

theorem Interval_truncation:
  "Interval (set_Interval v c) = v AND (2 ^ 28 - 1)
   \<and> Interval (SchedulerChore_inter d v) = v AND (2 ^ 28 - 1)
   \<and> unat (Interval (set_Interval v c)) = unat v mod 2 ^ 28
   \<and> unat (Interval (SchedulerChore_inter d v)) = unat v mod 2 ^ 28"
proof -
  have m: "(0x0fffffff :: u32) = mask 28" by (simp add: mask_eq_exp_minus_1)
  have a: "Interval (set_Interval v c) = take_bit 28 v"
    by (simp add: Interval_def set_Interval_def m take_bit_eq_mask)
  have b: "Interval (SchedulerChore_inter d v) = take_bit 28 v"
    by (simp add: Interval_def SchedulerChore_inter_def Let_def m take_bit_eq_mask)
  have c: "take_bit 28 v = v AND (2 ^ 28 - 1)"
    by (simp add: take_bit_eq_mask mask_eq_exp_minus_1)
  have "unat (take_bit 28 v) = take_bit 28 (unat v)"
    by (rule unsigned_take_bit_eq)
  also have "\<dots> = unat v mod 2 ^ 28"
    by (rule take_bit_eq_mod)
  finally have d: "unat (take_bit 28 v) = unat v mod 2 ^ 28" .
  show ?thesis using a b c d by simp
qed

subsection \<open>Failure returns\<close>

text \<open>
  Claim C10. The three failure returns happen before any mutation:
  \<open>Schedule\<close> on a chore that has an owner, \<open>SchedulerChore::AbortChore\<close> on a
  chore that has none, and \<open>Reschedule\<close> on a chore that has none each return -1
  and leave the whole state (every field of every object, hence the queue) as it
  was; and whenever one of them returns -1 the state is unchanged.
\<close>

theorem failure_without_mutation:
  assumes "deref s chore = Some c"
  shows "(m_parent c \<noteq> 0 \<longrightarrow> Schedule this chore s = Some (Done (- 1) s))
   \<and> (m_parent c = 0 \<longrightarrow> SchedulerChore_AbortChore chore s = Some (Done (- 1) s))
   \<and> (m_parent c = 0 \<longrightarrow> Reschedule this chore s = Some (Done (- 1) s))
   \<and> (\<forall>s'. Schedule this chore s = Some (Done (- 1) s') \<longrightarrow> s' = s)
   \<and> (\<forall>s'. SchedulerChore_AbortChore chore s = Some (Done (- 1) s') \<longrightarrow> s' = s)
   \<and> (\<forall>s'. Reschedule this chore s = Some (Done (- 1) s') \<longrightarrow> s' = s)"
proof -
  have early: "(m_parent c \<noteq> 0 \<longrightarrow> Schedule this chore s = Some (Done (- 1) s))
      \<and> (m_parent c = 0 \<longrightarrow> SchedulerChore_AbortChore chore s = Some (Done (- 1) s))
      \<and> (m_parent c = 0 \<longrightarrow> Reschedule this chore s = Some (Done (- 1) s))"
    using assms
    by (simp add: Schedule_def SchedulerChore_AbortChore_def Reschedule_def and_then_def
          rd_def ret_def)
  have sch: "Schedule this chore s = Some (Done (- 1) s') \<Longrightarrow> s' = s" for s'
    by (auto simp: Schedule_def and_then_def rd_def ret_def
          split: option.splits outcome.splits if_splits)
  have ab: "SchedulerChore_AbortChore chore s = Some (Done (- 1) s') \<Longrightarrow> s' = s" for s'
    by (auto simp: SchedulerChore_AbortChore_def AbortChore_def and_then_def rd_def ret_def
          split: option.splits outcome.splits if_splits)
  have re: "Reschedule this chore s = Some (Done (- 1) s') \<Longrightarrow> s' = s" for s'
    by (auto simp: Reschedule_def and_then_def rd_def ret_def
          split: option.splits outcome.splits if_splits)
  show ?thesis using early sch ab re by blast
qed

theorem failure_without_mutation_witness:
  "Schedule 1 3 (one_task 0) = Some (Done (- 1) (one_task 0))
   \<and> SchedulerChore_AbortChore 4 (one_task 0) = Some (Done (- 1) (one_task 0))
   \<and> Reschedule 1 4 (one_task 0) = Some (Done (- 1) (one_task 0))"
proof -
  have d3: "deref (one_task 0) 3 = Some (queued (flasher 100) 1 100 1 1)"
    and p3: "m_parent (queued (flasher 100) 1 100 1 1) \<noteq> 0"
    by (simp_all add: one_task_def blank_def deref_def queued_def)
  have d4: "deref (one_task 0) 4 = Some (flasher 50)" and p4: "m_parent (flasher 50) = 0"
    by (simp_all add: one_task_def blank_def deref_def flasher_def set_Interval_def
          LEDflasher_ctor_def SchedulerChore_default_def)
  show ?thesis
    using failure_without_mutation[OF d3, of 1] failure_without_mutation[OF d4, of 1] p3 p4
    by blast
qed

subsection \<open>Evaluations: insertion\<close>

text \<open>
  Claim C1. \<open>Insert\<close> is to link the chore before the first queued chore with a
  greater due time, or at the tail. Evaluated on the empty queue the constructor
  passes to it and a chore that was never linked: \<open>chore->InsertBefore(this)\<close>
  sets the sentinel's \<open>m_next\<close> to the chore and its \<open>m_prev\<close> to null, then
  dereferences the chore's null \<open>m_prev\<close>. The chore's own links stay null and
  the walk from the sentinel does not come back to it.
\<close>

theorem Insert_into_empty_queue:
  "fault_of (Insert 1 3 (fresh_sched 0)) = Some NullPointer
   \<and> object_after (Insert 1 3 (fresh_sched 0)) 1 = Some (sentinel 3 0)
   \<and> object_after (Insert 1 3 (fresh_sched 0)) 3 = Some ((flasher 100)\<lparr>m_parent := 1\<rparr>)
   \<and> \<not> queue_after (Insert 1 3 (fresh_sched 0)) 1 [3]"
  by code_simp

text \<open>
  Claim C5. \<open>Schedule\<close> on a chore without owner is to set the due time, insert
  the chore, set the owner and return 0. Evaluated at time 0 on the empty queue
  and a never scheduled chore of interval 100: the due time and the owner are
  set, then the insertion faults; no value is returned. On a chore that
  \<open>AbortChore\<close> left linked, \<open>Schedule\<close> returns 0 and the queue is empty.
\<close>

theorem Schedule_detached_chore:
  "fault_of (Schedule 1 3 (fresh_sched 0)) = Some NullPointer
   \<and> result_of (Schedule 1 3 (fresh_sched 0)) = None
   \<and> object_after (Schedule 1 3 (fresh_sched 0)) 3
       = Some ((flasher 100)\<lparr>m_parent := 1, m_targetTime := 100\<rparr>)
   \<and> result_of (and_then (AbortChore 1 3) (\<lambda>u. Schedule 1 3) (one_task 450)) = Some 0
   \<and> queue_after (and_then (AbortChore 1 3) (\<lambda>u. Schedule 1 3) (one_task 450)) 1 []"
  by code_simp

subsection \<open>Evaluations: dispatch\<close>


text \<open>
  Claim C8. A call of \<open>RunScheduler\<close> whose head is not due returns at once.
  With a due head (time 100) it invokes \<open>Run()\<close> and faults in the reinsertion;
  on the empty queue (time 5) the sentinel itself is taken for the head, removed,
  and the next test dereferences null. Neither call returns.
\<close>

theorem RunScheduler_outcomes:
  "result_of (RunScheduler 1 (one_task 50)) = Some ()
   \<and> fault_of (RunScheduler 1 (one_task 100)) = Some NullPointer
   \<and> result_of (RunScheduler 1 (one_task 100)) = None
   \<and> fault_of (RunScheduler 1 (fresh_sched 5)) = Some NullPointer
   \<and> result_of (RunScheduler 1 (fresh_sched 5)) = None"
  by code_simp

subsection \<open>Evaluations: the wrap guard\<close>

text \<open>
  Claim C6. The wrap guard is to start with due time \<open>0x40000000\<close> and, at each of
  its dispatches, to truncate the due times of the queued chores. The
  constructor of the scheduler, at clock 0, registers it through \<open>Schedule\<close>,
  which overwrites its due time with 0 and then faults in the insertion. With
  the guard and chore 3 queued as intended, the guard's dispatch advances its
  own due time to \<open>0x80000000\<close>, starts its loop at its own \<open>m_next\<close>, which
  \<open>Remove\<close> has set to null, and faults; the due time of chore 3 keeps bit 30.
\<close>

theorem wrap_guard_evaluation:
  "fault_of (Scheduler_ctor 1 2 (blank 0)) = Some NullPointer
   \<and> map_option m_targetTime (object_after (Scheduler_ctor 1 2 (blank 0)) 2) = Some 0
   \<and> queue (guard_and_task 0x40000000) 1 [2, 3]
   \<and> ran_after (RunScheduler 1 (guard_and_task 0x40000000)) = [2]
   \<and> fault_of (RunScheduler 1 (guard_and_task 0x40000000)) = Some NullPointer
   \<and> map_option m_targetTime (object_after (RunScheduler 1 (guard_and_task 0x40000000)) 2)
       = Some 0x80000000
   \<and> map_option m_targetTime (object_after (RunScheduler 1 (guard_and_task 0x40000000)) 3)
       = Some 0x40000064"
  by code_simp

subsection \<open>Evaluations: abort\<close>

text \<open>
  Claim C4. \<open>Scheduler::AbortChore\<close> is to fail with -1 on a chore without owner
  and to unlink an owned chore. Evaluated on the queue holding chore 3: it
  returns 0, clears the owner and leaves the chore linked (the scheduler's own
  \<open>m_parent\<close> is null, so \<open>Remove\<close> is skipped); called again, or on the never
  scheduled chore 4, it returns 0 as well.
\<close>

theorem AbortChore_evaluation:
  "result_of (AbortChore 1 3 (one_task 0)) = Some 0
   \<and> object_after (AbortChore 1 3 (one_task 0)) 3 = Some (queued (flasher 100) 0 100 1 1)
   \<and> queue_after (AbortChore 1 3 (one_task 0)) 1 [3]
   \<and> result_of (and_then (AbortChore 1 3) (\<lambda>u. AbortChore 1 3) (one_task 0)) = Some 0
   \<and> result_of (AbortChore 1 4 (one_task 0)) = Some 0"
  by code_simp

text \<open>
  Claim C7. The owner of a chore is to be the scheduler exactly when the walk
  from the sentinel reaches the chore. After the chore's own \<open>AbortChore()\<close>, and
  after the body of its destructor, chore 3 has no owner and the walk from the
  sentinel still visits it.
\<close>

theorem owner_and_queue_disagree:
  "map_option m_parent (object_after (SchedulerChore_AbortChore 3 (one_task 0)) 3) = Some 0
   \<and> queue_after (SchedulerChore_AbortChore 3 (one_task 0)) 1 [3]
   \<and> map_option m_parent (object_after (SchedulerChore_dtor 3 (one_task 0)) 3) = Some 0
   \<and> queue_after (SchedulerChore_dtor 3 (one_task 0)) 1 [3]"
  by code_simp

end
